theory Spec2Isabelle
  imports Main "HOL-Library.Word"
begin

section \<open>JavaScript values\<close>

text \<open>
  A JavaScript string is a sequence of 16-bit code units. Numbers are modelled as
  integers together with \<open>NaN\<close>: every number this program computes is a code unit, a
  position, or the value of at most four hexadecimal digits combined by the surrogate
  formula, all far inside the range where IEEE doubles are exact; negative zero is
  identified with zero. A function object is represented by its source text, which is
  what \<open>ToString\<close> yields for it.
\<close>

type_synonym jsstring = "16 word list"

definition units :: "string \<Rightarrow> jsstring" where
  "units s = map (\<lambda>c. of_nat (of_char c)) s"

datatype jsval =
    JNumber int
  | JNaN
  | JUndefined
  | JNull
  | JString jsstring
  | JFunction string

datatype jstype = TNumber | TUndefined | TNull | TString | TObject

fun js_type :: "jsval \<Rightarrow> jstype" where
  "js_type (JNumber _) = TNumber"
| "js_type JNaN = TNumber"
| "js_type JUndefined = TUndefined"
| "js_type JNull = TNull"
| "js_type (JString _) = TString"
| "js_type (JFunction _) = TObject"

subsection \<open>Numeric text\<close>

definition StrWhiteSpaceChar :: "16 word \<Rightarrow> bool" where
  "StrWhiteSpaceChar c =
     (c \<in> set [0x9, 0xA, 0xB, 0xC, 0xD, 0x20, 0xA0, 0x1680,
                0x2028, 0x2029, 0x202F, 0x205F, 0x3000, 0xFEFF]
      \<or> (0x2000 \<le> c \<and> c \<le> 0x200A))"

definition digit_value :: "16 word \<Rightarrow> nat option" where
  "digit_value c =
     (if 0x30 \<le> c \<and> c \<le> 0x39 then Some (unat c - 0x30)
      else if 0x41 \<le> c \<and> c \<le> 0x5A then Some (unat c - 0x41 + 10)
      else if 0x61 \<le> c \<and> c \<le> 0x7A then Some (unat c - 0x61 + 10)
      else None)"

definition is_digit :: "nat \<Rightarrow> 16 word \<Rightarrow> bool" where
  "is_digit R c = (case digit_value c of Some d \<Rightarrow> d < R | None \<Rightarrow> False)"

definition digits_value :: "nat \<Rightarrow> jsstring \<Rightarrow> int" where
  "digits_value R ds =
     int (foldl (\<lambda>acc c. case digit_value c of Some d \<Rightarrow> acc * R + d | None \<Rightarrow> acc) 0 ds)"

fun strip_sign :: "jsstring \<Rightarrow> int \<times> jsstring" where
  "strip_sign [] = (1, [])"
| "strip_sign (c # cs) =
     (if c = 0x2D then (- 1, cs) else if c = 0x2B then (1, cs) else (1, c # cs))"

fun strip_hex_prefix :: "jsstring \<Rightarrow> jsstring option" where
  "strip_hex_prefix (a # b # cs) =
     (if a = 0x30 \<and> (b = 0x78 \<or> b = 0x58) then Some cs else None)"
| "strip_hex_prefix _ = None"

text \<open>
  \<open>Number.parseInt(string, radix)\<close>: leading white space is skipped, a sign and (for
  radix 16 or 0) a \<open>0x\<close> prefix are accepted, and the longest prefix of digits of the
  radix is the value; the rest of the text is ignored. Only an empty digit prefix gives
  \<open>NaN\<close>.
\<close>

definition parseInt :: "jsstring \<Rightarrow> int \<Rightarrow> jsval" where
  "parseInt string radix =
     (let (sign, S) = strip_sign (dropWhile StrWhiteSpaceChar string) in
      if radix \<noteq> 0 \<and> (radix < 2 \<or> 36 < radix) then JNaN
      else
        let stripPrefix = (radix = 0 \<or> radix = 16);
            R = (if radix = 0 then 10 else nat radix);
            (S, R) = (case (if stripPrefix then strip_hex_prefix S else None) of
                        Some S' \<Rightarrow> (S', 16)
                      | None \<Rightarrow> (S, R));
            Z = takeWhile (is_digit R) S
        in if Z = [] then JNaN else JNumber (sign * digits_value R Z))"

fun strip_radix_prefix :: "jsstring \<Rightarrow> (nat \<times> jsstring) option" where
  "strip_radix_prefix (a # b # cs) =
     (if a \<noteq> 0x30 then None
      else if b = 0x78 \<or> b = 0x58 then Some (16, cs)
      else if b = 0x6F \<or> b = 0x4F then Some (8, cs)
      else if b = 0x62 \<or> b = 0x42 then Some (2, cs)
      else None)"
| "strip_radix_prefix _ = None"

text \<open>
  \<open>StringToNumber\<close> on integer literals: surrounding white space is trimmed, the empty
  text is 0, and the whole remaining text must be a literal. Decimal literals with a
  fraction part, an exponent or \<open>Infinity\<close> have no value in the integer model and are
  not interpreted; the only texts this program converts are the source texts of
  functions, which are no numeric literals of any form.
\<close>

definition string_to_number :: "jsstring \<Rightarrow> jsval" where
  "string_to_number s =
     (let t = rev (dropWhile StrWhiteSpaceChar (rev (dropWhile StrWhiteSpaceChar s))) in
      if t = [] then JNumber 0
      else case strip_radix_prefix t of
        Some (R, ds) \<Rightarrow>
          if ds \<noteq> [] \<and> list_all (is_digit R) ds then JNumber (digits_value R ds) else JNaN
      | None \<Rightarrow>
          (let (sign, ds) = strip_sign t in
           if ds \<noteq> [] \<and> list_all (is_digit 10) ds
           then JNumber (sign * digits_value 10 ds) else JNaN))"

fun dec_digits :: "nat \<Rightarrow> jsstring" where
  "dec_digits n =
     (if n < 10 then [of_nat (48 + n)]
      else dec_digits (n div 10) @ [of_nat (48 + n mod 10)])"

declare dec_digits.simps [simp del]

subsection \<open>Conversions and operators\<close>

fun to_primitive :: "jsval \<Rightarrow> jsval" where
  "to_primitive (JFunction src) = JString (units src)"
| "to_primitive v = v"

fun to_number :: "jsval \<Rightarrow> jsval" where
  "to_number (JNumber n) = JNumber n"
| "to_number JNaN = JNaN"
| "to_number JUndefined = JNaN"
| "to_number JNull = JNumber 0"
| "to_number (JString s) = string_to_number s"
| "to_number (JFunction src) = string_to_number (units src)"

fun to_string :: "jsval \<Rightarrow> jsstring" where
  "to_string (JNumber n) = (if n < 0 then 0x2D # dec_digits (nat (- n)) else dec_digits (nat n))"
| "to_string JNaN = units ''NaN''"
| "to_string JUndefined = units ''undefined''"
| "to_string JNull = units ''null''"
| "to_string (JString s) = s"
| "to_string (JFunction src) = units src"

text \<open>The operator \<open>===\<close>; two function values are the same object when they carry the
  same source text, the only function object of this program being one method.\<close>

fun strict_eq :: "jsval \<Rightarrow> jsval \<Rightarrow> bool" where
  "strict_eq JNaN _ = False"
| "strict_eq _ JNaN = False"
| "strict_eq a b = (a = b)"

definition loose_eq_prim :: "jsval \<Rightarrow> jsval \<Rightarrow> bool" where
  "loose_eq_prim a b =
     (if js_type a = js_type b then strict_eq a b
      else if js_type a \<in> {TNull, TUndefined} \<and> js_type b \<in> {TNull, TUndefined} then True
      else if js_type a = TNumber \<and> js_type b = TString then strict_eq a (to_number b)
      else if js_type a = TString \<and> js_type b = TNumber then strict_eq (to_number a) b
      else False)"

text \<open>The operator \<open>==\<close>: an object compared with a number or a string is first
  converted to a primitive.\<close>

definition loose_eq :: "jsval \<Rightarrow> jsval \<Rightarrow> bool" where
  "loose_eq a b =
     (if js_type a = js_type b then strict_eq a b
      else if js_type b = TObject \<and> js_type a \<in> {TNumber, TString}
        then loose_eq_prim a (to_primitive b)
      else if js_type a = TObject \<and> js_type b \<in> {TNumber, TString}
        then loose_eq_prim (to_primitive a) b
      else loose_eq_prim a b)"

definition is_less_than :: "jsval \<Rightarrow> jsval \<Rightarrow> bool option" where
  "is_less_than a b =
     (case (to_primitive a, to_primitive b) of
        (JString x, JString y) \<Rightarrow> Some (lexordp (<) x y)
      | (px, py) \<Rightarrow>
          (case (to_number px, to_number py) of
             (JNumber x, JNumber y) \<Rightarrow> Some (x < y)
           | _ \<Rightarrow> None))"

definition js_ge :: "jsval \<Rightarrow> jsval \<Rightarrow> bool" where
  "js_ge a b = (is_less_than a b = Some False)"

definition js_le :: "jsval \<Rightarrow> jsval \<Rightarrow> bool" where
  "js_le a b = (is_less_than b a = Some False)"

definition js_sub :: "jsval \<Rightarrow> jsval \<Rightarrow> jsval" where
  "js_sub a b =
     (case (to_number a, to_number b) of
        (JNumber x, JNumber y) \<Rightarrow> JNumber (x - y)
      | _ \<Rightarrow> JNaN)"

definition js_mul :: "jsval \<Rightarrow> jsval \<Rightarrow> jsval" where
  "js_mul a b =
     (case (to_number a, to_number b) of
        (JNumber x, JNumber y) \<Rightarrow> JNumber (x * y)
      | _ \<Rightarrow> JNaN)"

text \<open>The operator \<open>+\<close> concatenates as soon as one operand is a string after
  conversion to a primitive.\<close>

definition js_add :: "jsval \<Rightarrow> jsval \<Rightarrow> jsval" where
  "js_add a b =
     (let pa = to_primitive a; pb = to_primitive b in
      if js_type pa = TString \<or> js_type pb = TString
      then JString (to_string pa @ to_string pb)
      else case (to_number pa, to_number pb) of
             (JNumber x, JNumber y) \<Rightarrow> JNumber (x + y)
           | _ \<Rightarrow> JNaN)"

definition charCodeAt :: "jsstring \<Rightarrow> int \<Rightarrow> jsval" where
  "charCodeAt s pos =
     (if 0 \<le> pos \<and> pos < int (length s) then JNumber (uint (s ! nat pos)) else JNaN)"

text \<open>\<open>String.prototype.slice(start, end)\<close>: a negative bound counts from the end of
  the string, and both bounds are clamped to the string.\<close>

definition slice_str :: "jsstring \<Rightarrow> int \<Rightarrow> int \<Rightarrow> jsstring" where
  "slice_str s start end =
     (let len = int (length s);
          from = (if start < 0 then max (len + start) 0 else min start len);
          to = (if end < 0 then max (len + end) 0 else min end len)
      in take (nat (to - from)) (drop (nat from) s))"

section \<open>Errors\<close>

text \<open>
  Every \<open>throw\<close> of the two source files is a value. \<open>ParseEndError\<close> and
  \<open>ParseUnexpectedDataError(expected, actual)\<close> are the classes of the parse source;
  the two \<open>ParseError\<close>s of \<open>parseCharacterCodePoint\<close> and the \<open>Error\<close> of
  \<open>serializeResource\<close> are told apart by what their message is built from.
\<close>

datatype error =
    ParseEndError
  | ParseUnexpectedDataError jsval jsval
  | ParseError_InvalidUnicodeEscape jsstring
  | ParseError_UnknownEscapedCharacter jsval
  | Error_SerializationNotSupported jsval

section \<open>The parse source\<close>

record ParseSource =
  buffer :: jsstring
  index :: int

text \<open>The constructor: \<open>this.buffer = string; this.index = 0\<close>.\<close>

definition new_ParseSource :: "jsstring \<Rightarrow> ParseSource" where
  "new_ParseSource string = \<lparr>buffer = string, index = 0\<rparr>"

text \<open>
  A method either returns a value or throws, and in both cases leaves the parse source
  in the state it had reached: a \<open>throw\<close> undoes nothing.
\<close>

type_synonym 'a action = "ParseSource \<Rightarrow> (error + 'a) \<times> ParseSource"

definition returns :: "'a \<Rightarrow> 'a action" where
  "returns v r = (Inr v, r)"

definition throws :: "error \<Rightarrow> 'a action" where
  "throws e r = (Inl e, r)"

definition and_then :: "'a action \<Rightarrow> ('a \<Rightarrow> 'b action) \<Rightarrow> 'b action" where
  "and_then m f r = (case m r of (Inl e, r') \<Rightarrow> (Inl e, r') | (Inr v, r') \<Rightarrow> f v r')"

definition checkNotEnd :: "unit action" where
  "checkNotEnd r =
     (if index r \<ge> int (length (buffer r)) then throws ParseEndError r else returns () r)"

definition readRequired :: "jsval action" where
  "readRequired =
     and_then checkNotEnd
       (\<lambda>_ r. (Inr (charCodeAt (buffer r) (index r)), r\<lparr>index := index r + 1\<rparr>))"

definition check :: "jsval \<Rightarrow> jsval action" where
  "check charCode =
     and_then readRequired
       (\<lambda>c. if \<not> loose_eq c charCode then throws (ParseUnexpectedDataError charCode c)
            else returns c)"

definition readRequiredCount :: "int \<Rightarrow> jsstring action" where
  "readRequiredCount count r =
     (if index r > int (length (buffer r)) - count then throws ParseEndError r
      else (Inr (slice_str (buffer r) (index r) (index r + count)),
            r\<lparr>index := index r + count\<rparr>))"

text \<open>A sequence of calls on one parse source; a call that throws is caught by the
  caller, and the next call finds the source as the failed one left it.\<close>

datatype cursor_op =
    Check jsval
  | CheckNotEnd
  | ReadRequired
  | ReadRequiredCount int

fun run_op :: "ParseSource \<Rightarrow> cursor_op \<Rightarrow> ParseSource" where
  "run_op r (Check charCode) = snd (check charCode r)"
| "run_op r CheckNotEnd = snd (checkNotEnd r)"
| "run_op r ReadRequired = snd (readRequired r)"
| "run_op r (ReadRequiredCount count) = snd (readRequiredCount count r)"

definition run_ops :: "ParseSource \<Rightarrow> cursor_op list \<Rightarrow> ParseSource" where
  "run_ops r ops = foldl run_op r ops"

fun nonnegative_count :: "cursor_op \<Rightarrow> bool" where
  "nonnegative_count (ReadRequiredCount count) = (0 \<le> count)"
| "nonnegative_count _ = True"

definition in_bounds :: "ParseSource \<Rightarrow> bool" where
  "in_bounds r = (0 \<le> index r \<and> index r \<le> int (length (buffer r)))"

section \<open>The format constants\<close>

text \<open>
  \<open>SPEC\<close> is a frozen object with exactly the properties assigned in its initialiser;
  reading any other property of it yields \<open>undefined\<close>.
\<close>

definition SPEC_properties :: "(string \<times> jsval) list" where
  "SPEC_properties =
     [(''CHARACTER_DELIMITER'', JNumber 0x27),
      (''CHARACTER_ESCAPE'', JNumber 0x5C),
      (''CHARACTER_REQUIRED_ESCAPED_CHARACTERS'', JString [0x5C, 0x08, 0x0C, 0x0A, 0x0D, 0x09, 0x0B]),
      (''CHARACTER_OPTIONAL_ESCAPED_CHARACTERS'', JString [0x2F]),
      (''ESCAPED_BACKSPACE'', JNumber 0x62),
      (''ESCAPED_FORM_FEED'', JNumber 0x66),
      (''ESCAPED_LINE_FEED'', JNumber 0x6E),
      (''ESCAPED_CARRIAGE_RETURN'', JNumber 0x72),
      (''ESCAPED_TAB'', JNumber 0x74),
      (''ESCAPED_VERTICAL_TAB'', JNumber 0x76),
      (''ESCAPED_UNICODE'', JNumber 0x75)]"

definition SPEC :: "string \<Rightarrow> jsval" where
  "SPEC property = (case map_of SPEC_properties property of Some v \<Rightarrow> v | None \<Rightarrow> JUndefined)"

section \<open>The parser\<close>

text \<open>
  \<open>parseCharacterCodePoint\<close> obtains its characters with the expression
  \<open>reader.readRequired\<close>, written without an argument list. On a parse source this is a
  property read: it yields the method \<open>readRequired\<close> itself, as a function object, and
  calls nothing. The calls \<open>reader.check(...)\<close> and \<open>reader.readRequiredCount(4)\<close> of the
  same function are written with their argument lists and are calls.
\<close>

definition readRequired_source :: string where
  "readRequired_source =
     ''readRequired() {'' @ [CHR 0x0A] @
     ''    this.checkNotEnd();'' @ [CHR 0x0A] @
     ''    return this.buffer.charCodeAt(this.index++);'' @ [CHR 0x0A] @
     ''  }''"

definition get_readRequired :: "ParseSource \<Rightarrow> jsval" where
  "get_readRequired reader = JFunction readRequired_source"

text \<open>The expression \<open>(c - 0xD800) * 0x400 + c2 - 0xDC00 + 0x10000\<close>, left to right.\<close>

definition surrogate_pair :: "jsval \<Rightarrow> jsval \<Rightarrow> jsval" where
  "surrogate_pair c c2 =
     js_add (js_sub (js_add (js_mul (js_sub c (JNumber 0xD800)) (JNumber 0x400)) c2)
                    (JNumber 0xDC00))
            (JNumber 0x10000)"

text \<open>The body of \<open>case SPEC.ESCAPED_UNICODE\<close>.\<close>

definition unicode_escape :: "jsval action" where
  "unicode_escape =
     and_then (readRequiredCount 4) (\<lambda>unicodeString.
       let c = parseInt unicodeString 16 in
       if c = JNaN then throws (ParseError_InvalidUnicodeEscape unicodeString)
       else if js_ge c (JNumber 0xD800) \<and> js_le c (JNumber 0xDBFF) then
         and_then (check (SPEC ''CHARACTER_ESCAPE'')) (\<lambda>_.
         and_then (check (SPEC ''ESCAPED_UNICODE'')) (\<lambda>_.
         and_then (readRequiredCount 4) (\<lambda>unicodeString2.
           let c2 = parseInt unicodeString2 16 in
           if c2 = JNaN then throws (ParseError_InvalidUnicodeEscape unicodeString2)
           else returns (surrogate_pair c c2))))
       else returns c)"

text \<open>The \<open>switch\<close> on the escaped character compares with \<open>===\<close>, case by case in the
  order of the source.\<close>

definition escaped_character :: "jsval \<Rightarrow> jsval \<Rightarrow> jsval action" where
  "escaped_character c delimiter =
     (if strict_eq c (SPEC ''CHARACTER_ESCAPE'') \<or> strict_eq c (SPEC ''SOLIDUS_CHAR'')
        then returns c
      else if strict_eq c (SPEC ''ESCAPED_BACKSPACE'') then returns (SPEC ''BACKSPACE_CHAR'')
      else if strict_eq c (SPEC ''ESCAPED_FORM_FEED'') then returns (SPEC ''FORM_FEED_CHAR'')
      else if strict_eq c (SPEC ''ESCAPED_LINE_FEED'') then returns (SPEC ''LINE_FEED_CHAR'')
      else if strict_eq c (SPEC ''ESCAPED_CARRIAGE_RETURN'')
        then returns (SPEC ''CARRIAGE_RETURN_CHAR'')
      else if strict_eq c (SPEC ''ESCAPED_TAB'')
        then returns (SPEC ''CHARACTER_TABULATION_CHAR'')
      else if strict_eq c (SPEC ''ESCAPED_VERTICAL_TAB'')
        then returns (SPEC ''LINE_TABULATION_CHAR'')
      else if strict_eq c (SPEC ''ESCAPED_UNICODE'') then unicode_escape
      else if \<not> loose_eq c delimiter then throws (ParseError_UnknownEscapedCharacter c)
      else returns c)"

definition parseCharacterCodePoint :: "ParseSource \<Rightarrow> jsval \<Rightarrow> (error + jsval) \<times> ParseSource" where
  "parseCharacterCodePoint reader delimiter =
     (let c = get_readRequired reader in
      if loose_eq c delimiter then returns (JNumber (- 1)) reader
      else if loose_eq c (SPEC ''CHARACTER_ESCAPE'') then
        (let c = get_readRequired reader in escaped_character c delimiter reader)
      else if js_ge c (JNumber 0xD800) \<and> js_le c (JNumber 0xDBFF) then
        (let c2 = get_readRequired reader in returns (surrogate_pair c c2) reader)
      else returns c reader)"

section \<open>The serializer\<close>

text \<open>
  The appendable is a \<open>StringBuffer\<close> of the package \<open>string-buffer\<close>, which is not
  part of the sources. It is modelled by the text it holds, empty when created, which
  \<open>toString\<close> returns. Its \<open>append\<close> is the package's \<open>write\<close>
  (\<open>StringBuffer.prototype.append = StringBuffer.prototype.write\<close>); called with the
  text alone, \<open>write\<close> inserts it at the start of the text held, in front of what was
  written before.
\<close>

definition StringBuffer_write :: "jsstring \<Rightarrow> jsstring \<Rightarrow> jsstring" where
  "StringBuffer_write held text = text @ held"

definition serializeResource :: "jsstring \<Rightarrow> jsval \<Rightarrow> error + jsstring" where
  "serializeResource appendable resource =
     (if strict_eq resource (JString [])
      then Inr (StringBuffer_write appendable [0x22, 0x22])
      else Inl (Error_SerializationNotSupported resource))"

definition serializeRoot :: "jsstring \<Rightarrow> jsval \<Rightarrow> error + jsstring" where
  "serializeRoot appendable root =
     (if loose_eq root JNull then Inr appendable
      else serializeResource appendable root)"

definition serialize :: "jsval \<Rightarrow> error + jsstring" where
  "serialize root =
     (let writer = [] in
      case serializeRoot writer root of
        Inl e \<Rightarrow> Inl e
      | Inr writer' \<Rightarrow> Inr writer')"

definition stringify :: "jsval \<Rightarrow> error + jsstring" where
  "stringify v = serialize v"

section \<open>The parse source: single reads\<close>

lemma loose_eq_numbers: "loose_eq (JNumber a) (JNumber b) = (a = b)"
  by (simp add: loose_eq_def)

lemma readRequired_in_bounds:
  assumes "0 \<le> index r" and "index r < int (length (buffer r))"
  shows "readRequired r =
           (Inr (JNumber (uint (buffer r ! nat (index r)))), r\<lparr>index := index r + 1\<rparr>)"
  using assms
  by (simp add: readRequired_def and_then_def checkNotEnd_def returns_def charCodeAt_def)

text \<open>
  Claim C6. On a parse source that is not at its end, \<open>check(expected)\<close> consumes one
  unit and moves the position forward by 1 whether or not the unit matches: it returns
  the unit when it equals \<open>expected\<close>, and otherwise throws
  \<open>ParseUnexpectedDataError(expected, actual)\<close> with the position already advanced.
\<close>

theorem check_consumes_one_unit:
  assumes "0 \<le> index r" and "index r < int (length (buffer r))"
  shows "check (JNumber expected) r =
           (if uint (buffer r ! nat (index r)) = expected
            then Inr (JNumber expected)
            else Inl (ParseUnexpectedDataError (JNumber expected)
                        (JNumber (uint (buffer r ! nat (index r))))),
            r\<lparr>index := index r + 1\<rparr>)"
  by (simp add: check_def and_then_def readRequired_in_bounds [OF assms]
      loose_eq_numbers returns_def throws_def)

text \<open>\<open>check(0x41)\<close> on the inputs \<open>"A"\<close> and \<open>"B"\<close>.\<close>

theorem check_consumes_one_unit_witness:
  "0 \<le> index (new_ParseSource [0x41]) \<and>
   index (new_ParseSource [0x41]) < int (length (buffer (new_ParseSource [0x41]))) \<and>
   check (JNumber 0x41) (new_ParseSource [0x41]) =
     (Inr (JNumber 0x41), \<lparr>buffer = [0x41], index = 1\<rparr>) \<and>
   check (JNumber 0x41) (new_ParseSource [0x42]) =
     (Inl (ParseUnexpectedDataError (JNumber 0x41) (JNumber 0x42)),
      \<lparr>buffer = [0x42], index = 1\<rparr>)"
  using check_consumes_one_unit [of "new_ParseSource [0x41]" "0x41"]
        check_consumes_one_unit [of "new_ParseSource [0x42]" "0x41"]
  by (simp add: new_ParseSource_def)

section \<open>The parse source: reading a count of units\<close>

lemma slice_in_bounds:
  assumes "0 \<le> i" and "0 \<le> n" and "i + n \<le> int (length s)"
  shows "slice_str s i (i + n) = take (nat n) (drop (nat i) s)"
  using assms by (simp add: slice_str_def Let_def min_def)

text \<open>
  Claim C7, for a count that is not negative and a position inside the buffer:
  \<open>readRequiredCount(count)\<close> either throws \<open>ParseEndError\<close> and leaves the parse source
  as it was, when fewer than \<open>count\<close> units remain, or returns the \<open>count\<close> units
  starting at the position and moves the position forward by exactly \<open>count\<close>.
\<close>

theorem readRequiredCount_all_or_nothing:
  assumes "0 \<le> count" and "0 \<le> index r" and "index r \<le> int (length (buffer r))"
  shows "if int (length (buffer r)) - index r < count
         then readRequiredCount count r = (Inl ParseEndError, r)
         else readRequiredCount count r =
                (Inr (take (nat count) (drop (nat (index r)) (buffer r))),
                 r\<lparr>index := index r + count\<rparr>)
              \<and> int (length (take (nat count) (drop (nat (index r)) (buffer r)))) = count"
proof (cases "int (length (buffer r)) - index r < count")
  case True
  then have "index r > int (length (buffer r)) - count" by simp
  then show ?thesis using True by (simp add: readRequiredCount_def throws_def)
next
  case False
  then have fits: "index r + count \<le> int (length (buffer r))" by simp
  then have "\<not> index r > int (length (buffer r)) - count" by simp
  moreover have "slice_str (buffer r) (index r) (index r + count) =
                   take (nat count) (drop (nat (index r)) (buffer r))"
    using assms fits by (simp add: slice_in_bounds)
  moreover have "int (length (take (nat count) (drop (nat (index r)) (buffer r)))) = count"
    using assms fits by simp
  ultimately show ?thesis using False by (simp add: readRequiredCount_def)
qed

text \<open>Reading 2 and then, from a fresh source, 4 units of \<open>"abc"\<close>.\<close>

theorem readRequiredCount_all_or_nothing_witness:
  "(0::int) \<le> 2 \<and> 0 \<le> index (new_ParseSource (units ''abc'')) \<and>
   index (new_ParseSource (units ''abc''))
     \<le> int (length (buffer (new_ParseSource (units ''abc'')))) \<and>
   readRequiredCount 2 (new_ParseSource (units ''abc'')) =
     (Inr (units ''ab''), \<lparr>buffer = units ''abc'', index = 2\<rparr>) \<and>
   readRequiredCount 4 (new_ParseSource (units ''abc'')) =
     (Inl ParseEndError, new_ParseSource (units ''abc''))"
  using readRequiredCount_all_or_nothing [of 2 "new_ParseSource (units ''abc'')"]
        readRequiredCount_all_or_nothing [of 4 "new_ParseSource (units ''abc'')"]
  by (simp add: new_ParseSource_def units_def)

text \<open>
  Claim C7 as stated, for every count, fails at a negative one: the guard
  \<open>index > length - count\<close> lets it through and \<open>slice\<close> counts a negative end bound
  from the end of the buffer. With the position at 1 in \<open>"abcdef"\<close>, a count of \<open>-2\<close>
  returns the four units \<open>"bcde"\<close> and moves the position back to \<open>-1\<close>.
\<close>

theorem readRequiredCount_negative_count_counterexample:
  "readRequiredCount (- 2) \<lparr>buffer = units ''abcdef'', index = 1\<rparr> =
     (Inr (units ''bcde''), \<lparr>buffer = units ''abcdef'', index = - 1\<rparr>)"
  by (simp add: readRequiredCount_def slice_str_def units_def)

section \<open>The position across a sequence of calls\<close>

lemma checkNotEnd_state: "snd (checkNotEnd r) = r"
  by (simp add: checkNotEnd_def throws_def returns_def)

lemma readRequired_state:
  "snd (readRequired r) =
     (if index r \<ge> int (length (buffer r)) then r else r\<lparr>index := index r + 1\<rparr>)"
  by (simp add: readRequired_def and_then_def checkNotEnd_def throws_def returns_def)

lemma check_state: "snd (check charCode r) = snd (readRequired r)"
  by (cases "readRequired r")
     (auto simp: check_def and_then_def throws_def returns_def split: sum.splits)

lemma readRequiredCount_state:
  "snd (readRequiredCount count r) =
     (if index r > int (length (buffer r)) - count then r else r\<lparr>index := index r + count\<rparr>)"
  by (simp add: readRequiredCount_def throws_def)

lemma run_op_in_bounds:
  assumes "in_bounds r" and "nonnegative_count op"
  shows "in_bounds (run_op r op) \<and> index r \<le> index (run_op r op)
         \<and> buffer (run_op r op) = buffer r"
  using assms
  by (cases op)
     (auto simp: in_bounds_def check_state readRequired_state checkNotEnd_state
        readRequiredCount_state)

text \<open>
  As long as no call passes a negative count, every call, failed or not, keeps the
  position between 0 and the length of the buffer and never moves it back.
\<close>

lemma run_ops_in_bounds:
  assumes "in_bounds r" and "list_all nonnegative_count ops"
  shows "in_bounds (run_ops r ops) \<and> index r \<le> index (run_ops r ops)
         \<and> buffer (run_ops r ops) = buffer r"
  using assms
proof (induction ops arbitrary: r)
  case Nil
  then show ?case by (simp add: run_ops_def)
next
  case (Cons op ops)
  from Cons.prems have step: "in_bounds (run_op r op)" "index r \<le> index (run_op r op)"
      "buffer (run_op r op) = buffer r"
    using run_op_in_bounds [of r op] by simp_all
  from Cons.prems have "list_all nonnegative_count ops" by simp
  from Cons.IH [OF step(1) this] step show ?case
    by (simp add: run_ops_def)
qed

text \<open>
  Claim C8 says that for every sequence of calls of \<open>check\<close>, \<open>checkNotEnd\<close>,
  \<open>readRequired\<close> and \<open>readRequiredCount\<close> the position stays between 0 and the length of
  the buffer and never decreases. The source marks the check of the count as still to
  be done (\<open>TODO checkArgumentNotNegative(count)\<close>), and without it the single call
  \<open>readRequiredCount(-1)\<close> on a fresh source over \<open>"abc"\<close> moves the position from 0
  to \<open>-1\<close>.
\<close>

theorem negative_count_breaks_position_invariant:
  "in_bounds (new_ParseSource (units ''abc'')) \<and>
   run_ops (new_ParseSource (units ''abc'')) [ReadRequiredCount (- 1)] =
     \<lparr>buffer = units ''abc'', index = - 1\<rparr> \<and>
   \<not> in_bounds (run_ops (new_ParseSource (units ''abc'')) [ReadRequiredCount (- 1)])"
  by (simp add: run_ops_def readRequiredCount_def new_ParseSource_def in_bounds_def units_def)

section \<open>The parser reads nothing\<close>

lemma readRequired_source_not_numeric:
  "string_to_number (units readRequired_source) = JNaN"
  by (simp add: string_to_number_def readRequired_source_def units_def
      StrWhiteSpaceChar_def is_digit_def digit_value_def)

lemma get_readRequired_not_number: "\<not> loose_eq (get_readRequired reader) (JNumber n)"
  by (simp add: get_readRequired_def loose_eq_def loose_eq_prim_def
      readRequired_source_not_numeric)

lemma get_readRequired_not_compared:
  "is_less_than (get_readRequired reader) (JNumber n) = None"
  by (simp add: get_readRequired_def is_less_than_def readRequired_source_not_numeric)

lemma SPEC_CHARACTER_ESCAPE: "SPEC ''CHARACTER_ESCAPE'' = JNumber 0x5C"
  by (simp add: SPEC_def SPEC_properties_def)

text \<open>
  The function object that \<open>reader.readRequired\<close> yields equals no number under \<open>==\<close>
  and is in no order with one, since its text converts to \<open>NaN\<close>. So for every parse
  source and every delimiter code the three tests of \<open>parseCharacterCodePoint\<close> fail, and
  the function returns that function object with the parse source untouched.
\<close>

lemma parseCharacterCodePoint_reads_nothing:
  "parseCharacterCodePoint reader (JNumber delimiter) = (Inr (get_readRequired reader), reader)"
  by (simp add: parseCharacterCodePoint_def get_readRequired_not_number
      SPEC_CHARACTER_ESCAPE js_ge_def get_readRequired_not_compared returns_def)

text \<open>
  Claim C1 says that an escaped high surrogate followed by \<open>\u\<close> and four more hex
  digits is decoded by the surrogate formula, and that the twelve units
  \<open>\uD83D\uDE00\<close> give the code point 0x1F600 with the position moved to 12. On that
  input the function returns the method \<open>readRequired\<close> and the position stays 0.
\<close>

theorem surrogate_pair_escape_not_decoded:
  "parseCharacterCodePoint
     (new_ParseSource (units (CHR 0x5C # ''uD83D'' @ CHR 0x5C # ''uDE00''))) (JNumber 0x27) =
   (Inr (JFunction readRequired_source),
    \<lparr>buffer = units (CHR 0x5C # ''uD83D'' @ CHR 0x5C # ''uDE00''), index = 0\<rparr>)"
  by (simp add: parseCharacterCodePoint_reads_nothing get_readRequired_def new_ParseSource_def)

text \<open>
  Claim C2 says that the escape letters \<open>b f n r t v\<close> give the control characters, and
  that the two units \<open>\n\<close> give 0x0A with the position moved to 2. On that input the
  function returns the method \<open>readRequired\<close> and the position stays 0.
\<close>

theorem line_feed_escape_not_decoded:
  "parseCharacterCodePoint (new_ParseSource (units (CHR 0x5C # ''n''))) (JNumber 0x27) =
   (Inr (JFunction readRequired_source),
    \<lparr>buffer = units (CHR 0x5C # ''n''), index = 0\<rparr>)"
  by (simp add: parseCharacterCodePoint_reads_nothing get_readRequired_def new_ParseSource_def)

text \<open>
  Claim C3 says that at the delimiter the function returns \<open>-1\<close> and moves the position
  forward by 1. On the one-unit input \<open>'\<close> with that delimiter it returns the method
  \<open>readRequired\<close> and the position stays 0.
\<close>

theorem delimiter_not_recognised:
  "parseCharacterCodePoint (new_ParseSource [0x27]) (JNumber 0x27) =
   (Inr (JFunction readRequired_source), \<lparr>buffer = [0x27], index = 0\<rparr>)"
  by (simp add: parseCharacterCodePoint_reads_nothing get_readRequired_def new_ParseSource_def)

text \<open>
  Claim C4 says that an escaped high surrogate not followed by \<open>\u\<close> and a low
  surrogate escape fails with \<open>ParseUnexpectedDataError\<close>. On \<open>\uD83Dab\<close> the function
  throws nothing: it returns the method \<open>readRequired\<close> and the position stays 0.
\<close>

theorem unpaired_surrogate_escape_not_rejected:
  "parseCharacterCodePoint (new_ParseSource (units (CHR 0x5C # ''uD83Dab''))) (JNumber 0x27) =
   (Inr (JFunction readRequired_source),
    \<lparr>buffer = units (CHR 0x5C # ''uD83Dab''), index = 0\<rparr>)"
  by (simp add: parseCharacterCodePoint_reads_nothing get_readRequired_def new_ParseSource_def)

text \<open>
  Claim C5 says that after \<open>\u\<close> exactly four units are read and parsed in base 16,
  failing exactly when they are no hex digits. On \<open>\u0041\<close> the function reads no unit:
  it returns the method \<open>readRequired\<close> and the position stays 0.
\<close>

theorem unicode_escape_not_read:
  "parseCharacterCodePoint (new_ParseSource (units (CHR 0x5C # ''u0041''))) (JNumber 0x27) =
   (Inr (JFunction readRequired_source),
    \<lparr>buffer = units (CHR 0x5C # ''u0041''), index = 0\<rparr>)"
  by (simp add: parseCharacterCodePoint_reads_nothing get_readRequired_def new_ParseSource_def)

subsection \<open>The branches that are never reached\<close>

lemmas eval_defs =
  unicode_escape_def and_then_def readRequiredCount_def throws_def returns_def
  slice_str_def units_def parseInt_def StrWhiteSpaceChar_def is_digit_def digit_value_def
  digits_value_def js_ge_def js_le_def is_less_than_def check_def readRequired_def
  checkNotEnd_def charCodeAt_def SPEC_def SPEC_properties_def loose_eq_def
  surrogate_pair_def js_add_def js_sub_def js_mul_def new_ParseSource_def

text \<open>
  Started by hand behind the two units \<open>\u\<close>, the body of the Unicode case does
  combine the pair \<open>\uD83D\uDE00\<close> into 0x1F600 and stops at position 12.
\<close>

lemma unicode_escape_surrogate_pair:
  "unicode_escape \<lparr>buffer = units (CHR 0x5C # ''uD83D'' @ CHR 0x5C # ''uDE00''), index = 2\<rparr> =
     (Inr (JNumber 0x1F600),
      \<lparr>buffer = units (CHR 0x5C # ''uD83D'' @ CHR 0x5C # ''uDE00''), index = 12\<rparr>)"
  by (simp add: eval_defs)

text \<open>It rejects a high surrogate that is followed by something else than the escape character, after
  consuming the offending unit.\<close>

lemma unicode_escape_unpaired:
  "unicode_escape (new_ParseSource (units ''D83Dab'')) =
     (Inl (ParseUnexpectedDataError (JNumber 0x5C) (JNumber 0x61)),
      \<lparr>buffer = units ''D83Dab'', index = 5\<rparr>)"
  by (simp add: eval_defs)

text \<open>\<open>Number.parseInt\<close> stops at the first unit that is no digit, so four units that
  only begin with a hex digit are accepted.\<close>

lemma unicode_escape_digit_prefix:
  "unicode_escape (new_ParseSource (units ''1zzz'')) =
     (Inr (JNumber 1), \<lparr>buffer = units ''1zzz'', index = 4\<rparr>)"
  by (simp add: eval_defs)

text \<open>The control characters the \<open>switch\<close> assigns are properties that \<open>SPEC\<close> does not
  have: the case for \<open>n\<close>, like those for \<open>b f r t v\<close>, yields \<open>undefined\<close>.\<close>

lemma escaped_line_feed_undefined:
  "escaped_character (JNumber 0x6E) (JNumber 0x27) r = (Inr JUndefined, r)"
  by (simp add: escaped_character_def SPEC_def SPEC_properties_def returns_def)

lemma escaped_mnemonic_undefined:
  assumes "e \<in> {0x62, 0x66, 0x6E, 0x72, 0x74, 0x76}"
  shows "escaped_character (JNumber e) delimiter r = (Inr JUndefined, r)"
  using assms
  by (auto simp: escaped_character_def SPEC_def SPEC_properties_def returns_def)

section \<open>The serializer on the empty string and on null\<close>

text \<open>
  Claim C9. Serializing the empty string gives exactly two units, the quotation mark
  U+0022 that opens the string literal and the one that closes it, with nothing
  between them. \<open>serialize\<close> writes them once, into the buffer it has just created.
\<close>

theorem stringify_empty_string:
  "stringify (JString []) = Inr [0x22, 0x22]"
  by (simp add: stringify_def serialize_def serializeRoot_def serializeResource_def
      StringBuffer_write_def loose_eq_def loose_eq_prim_def)

text \<open>
  Claim C10. Serializing a null root throws nothing and returns the empty string:
  \<open>serializeRoot\<close> returns at once, leaving the appendable as it was.
\<close>

theorem serialize_null:
  "serialize JNull = Inr [] \<and> stringify JNull = Inr [] \<and>
   serializeRoot appendable JNull = Inr appendable"
  by (simp add: stringify_def serialize_def serializeRoot_def loose_eq_def)

end
